theory Spec2Isabelle
  imports Main "HOL-Library.Sublist"
begin

section \<open>Text\<close>

text \<open>
  A Python \<open>str\<close> is modelled as a \<open>string\<close>: the list of the bytes of its UTF-8
  encoding. The literals of the source that hold an emoji are written with the bytes of
  that emoji. Substring search (\<open>a in b\<close>) is \<^const>\<open>sublist\<close>, and
  \<open>b.startswith(a)\<close> is \<^const>\<open>prefix\<close>; both agree with Python on UTF-8 text.

  \<open>str.lower\<close>: the letters A to Z go to a to z, and so do the two characters outside
  ASCII whose lower case holds an ASCII letter, U+212A KELVIN SIGN (to \<open>k\<close>) and
  U+0130 (to \<open>i\<close> followed by U+0307). Every other character outside ASCII is kept as
  it is: Python may give it another form, which holds no ASCII character, so the ASCII
  characters of the result and what lies between them are Python's, and a search for an
  ASCII word in the result has Python's answer.
\<close>

definition lower_char :: "char \<Rightarrow> char" where
  "lower_char c =
     (if 65 \<le> (of_char c :: nat) \<and> (of_char c :: nat) \<le> 90
      then char_of ((of_char c :: nat) + 32) else c)"

fun lower :: "string \<Rightarrow> string" where
  "lower [] = []"
| "lower (c # cs) =
     (if prefix [CHR 0xE2, CHR 0x84, CHR 0xAA] (c # cs) then CHR ''k'' # lower (drop 2 cs)
      else if prefix [CHR 0xC4, CHR 0xB0] (c # cs)
      then CHR ''i'' # CHR 0xCC # CHR 0x87 # lower (drop 1 cs)
      else lower_char c # lower cs)"

declare lower.simps [simp del]

text \<open>
  \<open>str.strip\<close> removes, at both ends, the characters that \<open>str.isspace\<close> accepts:
  U+0009 to U+000D, U+001C to U+0020, U+0085, U+00A0, U+1680, U+2000 to U+200A, U+2028,
  U+2029, U+202F, U+205F and U+3000, here in their UTF-8 encodings.
\<close>

definition whitespace :: "string list" where
  "whitespace =
     [[CHR 0x09], [CHR 0x0A], [CHR 0x0B], [CHR 0x0C], [CHR 0x0D],
      [CHR 0x1C], [CHR 0x1D], [CHR 0x1E], [CHR 0x1F], [CHR 0x20],
      [CHR 0xC2, CHR 0x85], [CHR 0xC2, CHR 0xA0], [CHR 0xE1, CHR 0x9A, CHR 0x80],
      [CHR 0xE2, CHR 0x80, CHR 0x80], [CHR 0xE2, CHR 0x80, CHR 0x81],
      [CHR 0xE2, CHR 0x80, CHR 0x82], [CHR 0xE2, CHR 0x80, CHR 0x83],
      [CHR 0xE2, CHR 0x80, CHR 0x84], [CHR 0xE2, CHR 0x80, CHR 0x85],
      [CHR 0xE2, CHR 0x80, CHR 0x86], [CHR 0xE2, CHR 0x80, CHR 0x87],
      [CHR 0xE2, CHR 0x80, CHR 0x88], [CHR 0xE2, CHR 0x80, CHR 0x89],
      [CHR 0xE2, CHR 0x80, CHR 0x8A], [CHR 0xE2, CHR 0x80, CHR 0xA8],
      [CHR 0xE2, CHR 0x80, CHR 0xA9], [CHR 0xE2, CHR 0x80, CHR 0xAF],
      [CHR 0xE2, CHR 0x81, CHR 0x9F], [CHR 0xE3, CHR 0x80, CHR 0x80]]"

fun strip_leading :: "string list \<Rightarrow> string \<Rightarrow> string" where
  "strip_leading spaces [] = []"
| "strip_leading spaces (c # cs) =
     (case find (\<lambda>w. w \<noteq> [] \<and> prefix w (c # cs)) spaces of
        None \<Rightarrow> c # cs
      | Some w \<Rightarrow> strip_leading spaces (drop (length w - 1) cs))"

declare strip_leading.simps [simp del]

definition strip :: "string \<Rightarrow> string" where
  "strip s = rev (strip_leading (map rev whitespace) (rev (strip_leading whitespace s)))"

text \<open>\<open>s.replace(old, new)\<close> for a non-empty \<open>old\<close>: every occurrence, left to right,
  without overlap.\<close>

fun replace :: "string \<Rightarrow> string \<Rightarrow> string \<Rightarrow> string" where
  "replace old new [] = []"
| "replace old new (c # cs) =
     (if old \<noteq> [] \<and> prefix old (c # cs)
      then new @ replace old new (drop (length old - 1) cs)
      else c # replace old new cs)"

text \<open>\<open>any(word in s for word in words)\<close>.\<close>

definition any_in :: "string list \<Rightarrow> string \<Rightarrow> bool" where
  "any_in words s = list_ex (\<lambda>word. sublist word s) words"

text \<open>The decimal text of an integer, as an f-string prints it.\<close>

fun digits :: "nat \<Rightarrow> string" where
  "digits n =
     (if n < 10 then [''0123456789'' ! n]
      else digits (n div 10) @ [''0123456789'' ! (n mod 10)])"

definition str_int :: "int \<Rightarrow> string" where
  "str_int i = (if i < 0 then CHR ''-'' # digits (nat (- i)) else digits (nat i))"

section \<open>Data model\<close>

text \<open>
  \<open>GoalMentorState\<close> is the \<open>TypedDict\<close> of \<open>goalmentor_langgraph.py\<close>; every state the
  program builds has all twelve keys, so it is a record. A step is a \<open>Dict[str, str]\<close>
  that comes from the decoded model output, unchecked: it stays a dictionary, and reading
  a missing key raises \<open>KeyError\<close>. A turn of the history is only ever built by the
  handlers, with both keys, and is a record; so is an entry of \<open>completion_status\<close>,
  whose key \<open>user_feedback\<close> is the field \<open>feedback_text\<close> (the state has a key of
  that name too). \<open>current_step_index\<close> and \<open>stuck_count\<close> are Python integers.
\<close>

datatype error = IndexError | KeyError string

datatype mode = GoalSetting | Planning | Execution | Help | Completed

type_synonym step = "string \<rightharpoonup> string"

record turn =
  role :: string
  content :: string

record completion =
  completed_at :: string
  feedback_text :: string

record GoalMentorState =
  goal :: string
  goal_refined :: bool
  steps :: "step list"
  current_step_index :: int
  user_message :: string
  assistant_response :: string
  conversation_history :: "turn list"
  mode :: mode
  user_feedback :: "string \<rightharpoonup> string"
  stuck_count :: int
  completion_status :: "int \<rightharpoonup> completion"
  next_action :: string

datatype message = SystemMessage string | HumanMessage string | AIMessage string

text \<open>
  The language model: \<open>llm.invoke(messages).content\<close>, or \<open>None\<close> when the call raises.
  A handler returns the list of the calls it made (the messages of each) together with
  the state it returns, or the exception that leaves it.
\<close>

type_synonym llm = "message list \<Rightarrow> string option"

type_synonym outcome = "message list list \<times> (error + GoalMentorState)"

fun mode_name :: "mode \<Rightarrow> string" where
  "mode_name GoalSetting = ''goal_setting''"
| "mode_name Planning = ''planning''"
| "mode_name Execution = ''execution''"
| "mode_name Help = ''help''"
| "mode_name Completed = ''completed''"

text \<open>\<open>d[key]\<close> on a dictionary and \<open>xs[i]\<close> on a list, with Python's negative
  indices.\<close>

definition getitem :: "step \<Rightarrow> string \<Rightarrow> error + string" where
  "getitem d k = (case d k of None \<Rightarrow> Inl (KeyError k) | Some v \<Rightarrow> Inr v)"

definition index :: "'a list \<Rightarrow> int \<Rightarrow> error + 'a" where
  "index xs i =
     (if 0 \<le> i \<and> i < int (length xs) then Inr (xs ! nat i)
      else if i < 0 \<and> - int (length xs) \<le> i then Inr (xs ! nat (int (length xs) + i))
      else Inl IndexError)"

text \<open>The slice \<open>xs[start:]\<close>: a negative \<open>start\<close> counts from the end, and a start
  before the list begins at its first element.\<close>

definition slice_from :: "int \<Rightarrow> 'a list \<Rightarrow> 'a list" where
  "slice_from start xs =
     (let n = int (length xs); s = (if start < 0 then max (n + start) 0 else min start n)
      in drop (nat s) xs)"

section \<open>The context builder\<close>

definition system_msg :: "GoalMentorState \<Rightarrow> string" where
  \<open>system_msg state =
     ''You are a professional goal mentor. The user's goal is: "'' @ goal state
     @ ''"\<newline>    \<newline>Current situation:\<newline>- Mode: '' @ mode_name (mode state)
     @ ''\<newline>- Current step: '' @ str_int (current_step_index state + 1)
     @ '' of '' @ str_int (int (length (steps state)))
     @ ''\<newline>- Times asked for help: '' @ str_int (stuck_count state)
     @ ''\<newline>\<newline>Be encouraging, practical, and conversational. Don't be robotic.''\<close>

definition turn_message :: "turn \<Rightarrow> message" where
  "turn_message msg =
     (if role msg = ''user'' then HumanMessage (content msg) else AIMessage (content msg))"

definition create_conversation_context :: "GoalMentorState \<Rightarrow> message list" where
  "create_conversation_context state =
     foldl (\<lambda>messages msg. messages @ [turn_message msg])
       [SystemMessage (system_msg state)]
       (slice_from (- 6) (conversation_history state))"

section \<open>The handlers\<close>

text \<open>Sequencing of computations that may raise.\<close>

definition and_then :: "error + 'a \<Rightarrow> ('a \<Rightarrow> error + 'b) \<Rightarrow> error + 'b" where
  "and_then r f = (case r of Inl e \<Rightarrow> Inl e | Inr v \<Rightarrow> f v)"

subsection \<open>Goal analysis\<close>

definition analysis_prompt :: "string \<Rightarrow> string \<Rightarrow> string" where
  \<open>analysis_prompt g user_msg =
     ''\<newline>The user wants to achieve: "'' @ g
     @ ''"\<newline>\<newline>Analyze this goal and respond naturally:\<newline>1. Is this goal specific and actionable enough?\<newline>2. If not, ask 1-2 friendly questions to help refine it\<newline>3. If it's good, acknowledge it and show enthusiasm\<newline>\<newline>Recent user message: "''
     @ user_msg
     @ ''"\<newline>\<newline>Be conversational and encouraging, not robotic.\<newline>''\<close>

definition goal_analysis_node :: "llm \<Rightarrow> GoalMentorState \<Rightarrow> outcome" where
  "goal_analysis_node llm state =
     (let g = goal state;
          user_msg = user_message state;
          messages = create_conversation_context state @ [HumanMessage (analysis_prompt g user_msg)]
      in case llm messages of
           Some reply \<Rightarrow>
             (let assistant_msg = strip reply;
                  needs_refinement = (sublist ''?'' assistant_msg \<and> \<not> goal_refined state);
                  new_history = conversation_history state
                    @ (if user_msg \<noteq> [] then [\<lparr>role = ''user'', content = user_msg\<rparr>] else [])
                    @ [\<lparr>role = ''assistant'', content = assistant_msg\<rparr>]
              in ([messages],
                  Inr (state\<lparr>assistant_response := assistant_msg,
                             conversation_history := new_history,
                             mode := (if needs_refinement then GoalSetting else Planning),
                             goal_refined := \<not> needs_refinement\<rparr>)))
         | None \<Rightarrow>
             ([messages],
              Inr (state\<lparr>assistant_response :=
                           ''I'm having trouble connecting right now. Let's work with your goal: '' @ g,
                         mode := Planning,
                         goal_refined := True\<rparr>)))"

subsection \<open>Planning\<close>

text \<open>
  \<open>json.loads\<close> belongs to the Python library, not to the repository: it is a parameter
  of the handler, \<open>None\<close> where it raises. The handler reads the decoded document only
  through \<open>.get("steps", [])\<close> and \<open>.get("encouragement", ...)\<close>, so the document is
  either an object, given by what it holds under these two keys (a value of the type the
  state declares for \<open>steps\<close>, and a string), or some other JSON value, on which
  \<open>.get\<close> raises.
\<close>

datatype json = Object "step list option" "string option" | NotObject

type_synonym loads = "string \<Rightarrow> json option"

definition planning_prompt :: "string \<Rightarrow> string" where
  \<open>planning_prompt g =
     ''\<newline>Create a 4-week plan for: "'' @ g
     @ ''"\<newline>\<newline>Return ONLY a JSON object with this exact structure:\<newline>{\<newline>    "steps": [\<newline>        {\<newline>            "title": "Week 1: [Short descriptive title]",\<newline>            "description": "[What to focus on this week]",\<newline>            "tips": "[2-3 practical tips for success]",\<newline>            "key_actions": "[Specific things to do]"\<newline>        },\<newline>        // ... 3 more weeks\<newline>    ],\<newline>    "encouragement": "[Personal encouraging message about their goal]"\<newline>}\<newline>\<newline>Make it practical, achievable, and motivating. Each week should build on the previous one.\<newline>''\<close>

definition fallback_steps :: "string \<Rightarrow> step list" where
  "fallback_steps g =
     [[''title'' \<mapsto> ''Week 1: Foundation Building'',
       ''description'' \<mapsto> ''Set up the basics for achieving '' @ g,
       ''tips'' \<mapsto> ''Start small, be consistent, track your progress'',
       ''key_actions'' \<mapsto> ''Research, plan, and take the first small step''],
      [''title'' \<mapsto> ''Week 2: Skill Development'',
       ''description'' \<mapsto> ''Focus on building key skills needed for '' @ g,
       ''tips'' \<mapsto> ''Practice daily, seek feedback, don't fear mistakes'',
       ''key_actions'' \<mapsto> ''Dedicate time each day to skill-building activities''],
      [''title'' \<mapsto> ''Week 3: Implementation'',
       ''description'' \<mapsto> ''Apply what you've learned toward '' @ g,
       ''tips'' \<mapsto> ''Take action, measure results, adjust as needed'',
       ''key_actions'' \<mapsto> ''Execute your plan and track concrete progress''],
      [''title'' \<mapsto> ''Week 4: Optimization'',
       ''description'' \<mapsto> ''Refine your approach and plan next steps for '' @ g,
       ''tips'' \<mapsto> ''Reflect on what worked, optimize your methods'',
       ''key_actions'' \<mapsto> ''Fine-tune your approach and set up for continued success'']]"

text \<open>The state that the \<open>except\<close> branch of the planning handler returns.\<close>

definition planning_fallback :: "GoalMentorState \<Rightarrow> GoalMentorState" where
  "planning_fallback state =
     state\<lparr>steps := fallback_steps (goal state),
           assistant_response := ''I've created a solid 4-week plan for you! Let's start with Week 1.'',
           conversation_history := conversation_history state
             @ [\<lparr>role = ''assistant'',
                 content = ''I've created a solid 4-week plan for you! Let's start with Week 1.''\<rparr>],
           mode := Execution,
           current_step_index := 0\<rparr>"

text \<open>The text handed to \<open>json.loads\<close>: the stripped reply, without its code fence when
  it starts with one.\<close>

definition unfenced :: "string \<Rightarrow> string" where
  "unfenced reply =
     (let content = strip reply
      in if prefix ''```json'' content
         then strip (replace ''```'' [] (replace ''```json'' [] content))
         else content)"

definition planning_node :: "llm \<Rightarrow> loads \<Rightarrow> GoalMentorState \<Rightarrow> outcome" where
  "planning_node llm loads state =
     (let g = goal state;
          messages = create_conversation_context state @ [HumanMessage (planning_prompt g)]
      in case llm messages of
           None \<Rightarrow> ([messages], Inr (planning_fallback state))
         | Some reply \<Rightarrow>
             (case loads (unfenced reply) of
                None \<Rightarrow> ([messages], Inr (planning_fallback state))
              | Some NotObject \<Rightarrow> ([messages], Inr (planning_fallback state))
              | Some (Object steps_value encouragement_value) \<Rightarrow>
                  (let new_steps = (case steps_value of None \<Rightarrow> [] | Some v \<Rightarrow> v);
                       encouragement = (case encouragement_value of
                                          None \<Rightarrow> ''Great goal! Let's make it happen.''
                                        | Some v \<Rightarrow> v);
                       response = encouragement
                         @ ''\<newline>\<newline>I've created your 4-week plan! Ready to start with Week 1?''
                   in ([messages],
                       Inr (state\<lparr>steps := new_steps,
                                  assistant_response := response,
                                  conversation_history := conversation_history state
                                    @ [\<lparr>role = ''assistant'', content = response\<rparr>],
                                  mode := Execution,
                                  current_step_index := 0\<rparr>)))))"

subsection \<open>Execution\<close>

text \<open>The message of a completed step: the f-strings of the two branches, with the
  dictionary reads in the order the source makes them.\<close>

definition congrats_msg :: "step list \<Rightarrow> step \<Rightarrow> int \<Rightarrow> string \<Rightarrow> error + string" where
  \<open>congrats_msg stps current_step new_idx g =
     (if new_idx \<ge> int (length stps)
      then Inr ([CHR 0xF0, CHR 0x9F, CHR 0x8E, CHR 0x89]
             @ '' Congratulations! You've completed all 4 weeks of your goal plan for ''
             @ [CHR 0x27] @ g @ [CHR 0x27] @ ''! That's amazing dedication.'')
      else and_then (index stps new_idx) (\<lambda>next_step.
           and_then (getitem current_step ''title'') (\<lambda>current_title.
           and_then (getitem next_step ''title'') (\<lambda>next_title.
           and_then (getitem next_step ''description'') (\<lambda>next_description.
             Inr ([CHR 0xE2, CHR 0x9C, CHR 0x85] @ '' Awesome! You've completed '' @ current_title
                  @ ''!\<newline>\<newline>Ready for '' @ next_title @ ''?\<newline>\<newline>''
                  @ next_description))))))\<close>

definition step_context :: "step \<Rightarrow> string \<Rightarrow> error + string" where
  \<open>step_context current_step user_msg =
     and_then (getitem current_step ''title'') (\<lambda>title.
     and_then (getitem current_step ''description'') (\<lambda>description.
     and_then (getitem current_step ''tips'') (\<lambda>tips.
       Inr (''\<newline>The user is working on: '' @ title
            @ ''\<newline>Description: '' @ description
            @ ''\<newline>Tips: '' @ tips
            @ ''\<newline>\<newline>User said: "'' @ user_msg
            @ ''"\<newline>\<newline>Respond conversationally. Be encouraging and provide relevant advice for their current step.\<newline>''))))\<close>

definition discussion_fallback :: "step \<Rightarrow> error + string" where
  "discussion_fallback current_step =
     and_then (getitem current_step ''title'') (\<lambda>title.
     and_then (getitem current_step ''tips'') (\<lambda>tips.
       Inr (''I understand you're working on '' @ title @ ''. '' @ tips
            @ '' What specific part would you like to focus on?'')))"

definition execution_node :: "llm \<Rightarrow> GoalMentorState \<Rightarrow> outcome" where
  "execution_node llm state =
     (let current_idx = current_step_index state;
          stps = steps state;
          user_msg = lower (user_message state)
      in if current_idx \<ge> int (length stps) then ([], Inr (state\<lparr>mode := Completed\<rparr>))
         else case index stps current_idx of
           Inl e \<Rightarrow> ([], Inl e)
         | Inr current_step \<Rightarrow>
             if any_in [''done'', ''complete'', ''finished'', ''next''] user_msg then
               (let new_status = (completion_status state)
                      (current_idx \<mapsto> \<lparr>completed_at = ''now'', feedback_text = user_msg\<rparr>);
                    new_idx = current_idx + 1
                in case congrats_msg stps current_step new_idx (goal state) of
                     Inl e \<Rightarrow> ([], Inl e)
                   | Inr msg \<Rightarrow>
                       ([], Inr (state\<lparr>current_step_index := new_idx,
                                       completion_status := new_status,
                                       assistant_response := msg,
                                       conversation_history := conversation_history state
                                         @ [\<lparr>role = ''user'', content = user_message state\<rparr>,
                                            \<lparr>role = ''assistant'', content = msg\<rparr>],
                                       mode := (if new_idx \<ge> int (length stps)
                                                then Completed else Execution)\<rparr>)))
             else if any_in [''help'', ''stuck'', ''difficult'', ''hard'', ''don't know''] user_msg then
               ([], Inr (state\<lparr>mode := Help, stuck_count := stuck_count state + 1\<rparr>))
             else
               (case step_context current_step (user_message state) of
                  Inl e \<Rightarrow> ([], Inl e)
                | Inr prompt \<Rightarrow>
                    (let messages = create_conversation_context state @ [HumanMessage prompt]
                     in case llm messages of
                          Some reply \<Rightarrow>
                            (let assistant_msg = strip reply
                             in ([messages],
                                 Inr (state\<lparr>assistant_response := assistant_msg,
                                            conversation_history := conversation_history state
                                              @ [\<lparr>role = ''user'', content = user_message state\<rparr>,
                                                 \<lparr>role = ''assistant'', content = assistant_msg\<rparr>]\<rparr>)))
                        | None \<Rightarrow>
                            (case discussion_fallback current_step of
                               Inl e \<Rightarrow> ([messages], Inl e)
                             | Inr text \<Rightarrow>
                                 ([messages], Inr (state\<lparr>assistant_response := text\<rparr>))))))"

subsection \<open>Help\<close>

definition help_level :: "int \<Rightarrow> string" where
  "help_level count =
     (if count = 1 then ''gentle encouragement and tips''
      else if count = 2 then ''more specific, actionable advice''
      else ''very detailed, step-by-step breakdown'')"

definition help_prompt :: "step \<Rightarrow> string \<Rightarrow> int \<Rightarrow> error + string" where
  \<open>help_prompt current_step user_msg count =
     and_then (getitem current_step ''title'') (\<lambda>title.
     and_then (getitem current_step ''description'') (\<lambda>description.
       Inr (''\<newline>The user is stuck on: '' @ title
            @ ''\<newline>Description: '' @ description
            @ ''\<newline>They said: "'' @ user_msg
            @ ''"\<newline>Times they've asked for help: '' @ str_int count
            @ ''\<newline>\<newline>Provide '' @ help_level count
            @ ''. Be understanding and practical. \<newline>\<newline>If they've been stuck multiple times, consider suggesting they might want to break this down into smaller parts or try a different approach.\<newline>'')))\<close>

definition fallback_help :: "step \<Rightarrow> error + string" where
  "fallback_help current_step =
     and_then (getitem current_step ''title'') (\<lambda>title.
     and_then (getitem current_step ''tips'') (\<lambda>tips.
       Inr (''I can see you're having trouble with '' @ title
            @ ''. That's totally normal!\<newline>        \<newline>Here are some ways to approach it:\<newline>1. Break it into smaller 15-minute tasks\<newline>2. Focus on just one small part today\<newline>3. Ask yourself: what's the smallest step I could take right now?\<newline>\<newline>''
            @ tips @ ''\<newline>\<newline>What feels most manageable to you?'')))"

definition help_node :: "llm \<Rightarrow> GoalMentorState \<Rightarrow> outcome" where
  "help_node llm state =
     (case index (steps state) (current_step_index state) of
        Inl e \<Rightarrow> ([], Inl e)
      | Inr current_step \<Rightarrow>
          (let user_msg = user_message state
           in case help_prompt current_step user_msg (stuck_count state) of
                Inl e \<Rightarrow> ([], Inl e)
              | Inr prompt \<Rightarrow>
                  (let messages = create_conversation_context state @ [HumanMessage prompt]
                   in case llm messages of
                        Some reply \<Rightarrow>
                          (let assistant_msg = strip reply
                           in ([messages],
                               Inr (state\<lparr>assistant_response := assistant_msg,
                                          conversation_history := conversation_history state
                                            @ [\<lparr>role = ''user'', content = user_msg\<rparr>,
                                               \<lparr>role = ''assistant'', content = assistant_msg\<rparr>],
                                          mode := Execution\<rparr>)))
                      | None \<Rightarrow>
                          (case fallback_help current_step of
                             Inl e \<Rightarrow> ([messages], Inl e)
                           | Inr text \<Rightarrow>
                               ([messages],
                                Inr (state\<lparr>assistant_response := text, mode := Execution\<rparr>))))))"

subsection \<open>Completion\<close>

text \<open>The loop over \<open>enumerate(state["steps"])\<close>: one line for each step, marked by
  whether its position is a key of \<open>completion_status\<close>.\<close>

fun celebration_lines :: "(int \<rightharpoonup> completion) \<Rightarrow> nat \<Rightarrow> step list \<Rightarrow> error + string" where
  "celebration_lines status i [] = Inr []"
| "celebration_lines status i (step # rest) =
     and_then (getitem step ''title'') (\<lambda>title.
     and_then (celebration_lines status (Suc i) rest) (\<lambda>lines.
       Inr ((if status (int i) \<noteq> None
             then [CHR 0xE2, CHR 0x9C, CHR 0x85] else [CHR 0xF0, CHR 0x9F, CHR 0x93, CHR 0x9D])
            @ '' '' @ title @ ''\<newline>'' @ lines)))"

definition celebration_msg :: "GoalMentorState \<Rightarrow> error + string" where
  \<open>celebration_msg state =
     and_then (celebration_lines (completion_status state) 0 (steps state)) (\<lambda>lines.
       Inr ([CHR 0xF0, CHR 0x9F, CHR 0x8E, CHR 0x89] @ '' CONGRATULATIONS! ''
            @ [CHR 0xF0, CHR 0x9F, CHR 0x8E, CHR 0x89]
            @ ''\<newline>\<newline>You've successfully completed your 4-week journey toward "''
            @ goal state @ ''"!\<newline>\<newline>Here's what you accomplished:\<newline>''
            @ lines
            @ ''\<newline>That's incredible dedication! You should be proud of yourself.\<newline>\<newline>What's next? Ready to set a new goal, or do you want to keep building on this one?''))\<close>

definition completion_node :: "GoalMentorState \<Rightarrow> outcome" where
  "completion_node state =
     (case celebration_msg state of
        Inl e \<Rightarrow> ([], Inl e)
      | Inr msg \<Rightarrow>
          ([], Inr (state\<lparr>assistant_response := msg,
                          conversation_history := conversation_history state
                            @ [\<lparr>role = ''assistant'', content = msg\<rparr>]\<rparr>)))"

section \<open>The router and the graph's nodes\<close>

definition route_conversation :: "GoalMentorState \<Rightarrow> string" where
  "route_conversation state =
     (let m = mode state;
          user_msg = lower (user_message state)
      in if any_in [''new goal'', ''start over'', ''different goal''] user_msg then ''goal_analysis''
         else if m = GoalSetting then ''goal_analysis''
         else if m = Planning then ''planning''
         else if m = Help then ''help''
         else if m = Completed then ''completion''
         else ''execution'')"

text \<open>The table of \<open>workflow.add_node\<close>: the handler registered under each name.\<close>

definition node :: "string \<Rightarrow> (llm \<Rightarrow> loads \<Rightarrow> GoalMentorState \<Rightarrow> outcome) option" where
  "node name =
     (if name = ''goal_analysis'' then Some (\<lambda>llm loads. goal_analysis_node llm)
      else if name = ''planning'' then Some planning_node
      else if name = ''execution'' then Some (\<lambda>llm loads. execution_node llm)
      else if name = ''help'' then Some (\<lambda>llm loads. help_node llm)
      else if name = ''completion'' then Some (\<lambda>llm loads. completion_node)
      else None)"


definition new_goal_button_state :: GoalMentorState where
  "new_goal_button_state =
     \<lparr>goal = [], goal_refined = False, steps = [], current_step_index = 0,
      user_message = [],
      assistant_response = ''What new goal would you like to work on?'',
      conversation_history = [], mode = GoalSetting, user_feedback = Map.empty,
      stuck_count = 0, completion_status = Map.empty, next_action = []\<rparr>"

definition with_user_input :: "GoalMentorState \<Rightarrow> string \<Rightarrow> GoalMentorState" where
  "with_user_input current_state user_input = current_state\<lparr>user_message := user_input\<rparr>"

section \<open>The numbered-list plan of \<open>main.py\<close>\<close>

text \<open>\<open>text.split("\n")\<close>, the part of a line after the first \<open>". "\<close>
  (\<open>line.split(". ", 1)[-1]\<close>, for a line that holds one), and \<open>isdigit\<close> on
  ASCII.\<close>

fun split_lines :: "string \<Rightarrow> string list" where
  "split_lines [] = [[]]"
| "split_lines (c # cs) =
     (if c = CHR ''\<newline>'' then [] # split_lines cs
      else (case split_lines cs of [] \<Rightarrow> [[c]] | l # ls \<Rightarrow> (c # l) # ls))"

fun after_first :: "string \<Rightarrow> string \<Rightarrow> string" where
  "after_first sep [] = []"
| "after_first sep (c # cs) =
     (if prefix sep (c # cs) then drop (length sep) (c # cs) else after_first sep cs)"

definition isdigit :: "char \<Rightarrow> bool" where
  "isdigit c = (48 \<le> (of_char c :: nat) \<and> (of_char c :: nat) \<le> 57)"

definition numbered_steps :: "string \<Rightarrow> string list" where
  "numbered_steps text =
     concat (map (\<lambda>raw. let line = strip raw
                         in if line \<noteq> [] \<and> length line > 2 \<and> isdigit (hd line)
                               \<and> sublist ''. '' line
                            then [strip (after_first ''. '' line)] else [])
                 (split_lines text))"

definition generate_plan :: "llm \<Rightarrow> string \<Rightarrow> string list" where
  "generate_plan llm g =
     (case llm [SystemMessage ''Break the user's goal into 4 clear, actionable weekly steps. Format as a numbered list (1. step one\<newline>2. step two\<newline> etc.). Each step should be specific and measurable.'',
                HumanMessage (''My goal is: '' @ g)] of
        Some reply \<Rightarrow> numbered_steps (strip reply)
      | None \<Rightarrow> [])"

section \<open>Sessions and observations\<close>

text \<open>What a handler's outcome shows: the state it returned, if it returned, and the
  number of steps of the plan in it.\<close>

definition returned :: "outcome \<Rightarrow> GoalMentorState option" where
  "returned out = (case snd out of Inl e \<Rightarrow> None | Inr state \<Rightarrow> Some state)"

definition plan_length :: "outcome \<Rightarrow> nat option" where
  "plan_length out = map_option (\<lambda>state. length (steps state)) (returned out)"


text \<open>
  The states that follow a state within one goal: after any number of user inputs and of
  runs of a handler other than the planning handler, each run with any model and decoder.
\<close>

inductive within_goal :: "GoalMentorState \<Rightarrow> GoalMentorState \<Rightarrow> bool" where
  start: "within_goal s s"
| input: "within_goal s t \<Longrightarrow> within_goal s (with_user_input t user_input)"
| handler: "within_goal s t \<Longrightarrow> name \<noteq> ''planning'' \<Longrightarrow> node name = Some h
            \<Longrightarrow> h llm loads t = (calls, Inr t') \<Longrightarrow> within_goal s t'"

text \<open>Models and decoders for the examples: a model that is down, a model with one fixed
  reply, and a decoder that agrees with \<open>json.loads\<close> on the document \<open>{}\<close> (the empty
  object) and is used on that document only.\<close>

definition llm_down :: llm where
  "llm_down messages = None"

definition llm_replies :: "string \<Rightarrow> llm" where
  "llm_replies reply messages = Some reply"

definition loads_empty_object :: loads where
  "loads_empty_object text = (if text = ''{}'' then Some (Object None None) else None)"

text \<open>Example states: a session in the middle of a plan, with two steps done and one call
  for help, and the same session waiting for its plan.\<close>

definition session_state :: GoalMentorState where
  "session_state =
     \<lparr>goal = ''learn python'', goal_refined = True,
      steps = fallback_steps ''learn python'', current_step_index = 2,
      user_message = [], assistant_response = [],
      conversation_history =
        [\<lparr>role = ''user'', content = ''learn python''\<rparr>,
         \<lparr>role = ''assistant'', content = ''I've created a solid 4-week plan for you! Let's start with Week 1.''\<rparr>],
      mode = Execution, user_feedback = Map.empty, stuck_count = 1,
      completion_status =
        [0 \<mapsto> \<lparr>completed_at = ''now'', feedback_text = ''done''\<rparr>,
         1 \<mapsto> \<lparr>completed_at = ''now'', feedback_text = ''finished it''\<rparr>],
      next_action = []\<rparr>"

definition planning_state :: GoalMentorState where
  "planning_state =
     \<lparr>goal = ''learn python'', goal_refined = True, steps = [], current_step_index = 0,
      user_message = ''learn python'', assistant_response = [],
      conversation_history = [], mode = Planning, user_feedback = Map.empty,
      stuck_count = 0, completion_status = Map.empty, next_action = []\<rparr>"

section \<open>Example states\<close>

text \<open>
  States for the examples below: the session of \<open>session_state\<close> on its last step when
  the user reports it done, and what the execution handler makes of it; the session with
  its index past the plan; the session in help mode, and in help mode on a plan whose one
  step came from the model without tips; the session in a free discussion of the current
  step; and the session when the user asks, in words, for a new goal.
\<close>

definition last_step_state :: GoalMentorState where
  "last_step_state = session_state\<lparr>current_step_index := 3, user_message := ''done, finally!''\<rparr>"

definition last_step_done :: GoalMentorState where
  "last_step_done =
     last_step_state
       \<lparr>current_step_index := 4,
        completion_status := (completion_status last_step_state)
          (3 \<mapsto> \<lparr>completed_at = ''now'', feedback_text = ''done, finally!''\<rparr>),
        assistant_response := [CHR 0xF0, CHR 0x9F, CHR 0x8E, CHR 0x89]
          @ '' Congratulations! You've completed all 4 weeks of your goal plan for 'learn python'! That's amazing dedication.'',
        conversation_history := conversation_history last_step_state
          @ [\<lparr>role = ''user'', content = ''done, finally!''\<rparr>,
             \<lparr>role = ''assistant'', content = [CHR 0xF0, CHR 0x9F, CHR 0x8E, CHR 0x89]
               @ '' Congratulations! You've completed all 4 weeks of your goal plan for 'learn python'! That's amazing dedication.''\<rparr>],
        mode := Completed\<rparr>"

definition overrun_state :: GoalMentorState where
  "overrun_state = session_state\<lparr>current_step_index := 4, user_message := ''what now''\<rparr>"

definition help_state :: GoalMentorState where
  "help_state = session_state\<lparr>mode := Help, user_message := ''I'm stuck''\<rparr>"

definition discussion_state :: GoalMentorState where
  "discussion_state = session_state\<lparr>user_message := ''what should I read first''\<rparr>"

definition untipped_state :: GoalMentorState where
  "untipped_state =
     help_state\<lparr>steps := [[''title'' \<mapsto> ''Week 1: Read the tutorial'',
                            ''description'' \<mapsto> ''Read the first three chapters'']],
                current_step_index := 0\<rparr>"

definition new_goal_state :: GoalMentorState where
  "new_goal_state = with_user_input session_state ''I want to Start Over with a new goal''"

section \<open>Lemmas on text, the context and the frames of the handlers\<close>

lemma lower_done: "lower ''done, finally!'' = ''done, finally!''"
  by code_simp

lemma done_kw: "any_in [''done'', ''complete'', ''finished'', ''next''] ''done, finally!''"
  by (simp add: any_in_def)

lemma done_not_new: "\<not> any_in [''new goal'', ''start over'', ''different goal''] ''done, finally!''"
  by (simp add: any_in_def sublist_code prefix_code)

lemma lower_new_goal:
  "lower ''I want to Start Over with a new goal'' = ''i want to start over with a new goal''"
  by code_simp

lemma lower_discussion: "lower ''what should I read first'' = ''what should i read first''"
  by code_simp

lemma discussion_no_keyword:
  "\<not> any_in [''done'', ''complete'', ''finished'', ''next''] ''what should i read first''"
  "\<not> any_in [''help'', ''stuck'', ''difficult'', ''hard'', ''don't know''] ''what should i read first''"
  by (simp_all add: any_in_def sublist_code prefix_code)

lemma unfenced_braces: "unfenced ''{}'' = ''{}''"
  by code_simp






lemma length_fallback_steps: "length (fallback_steps g) = 4"
  by (simp add: fallback_steps_def)

lemma index_in_range:
  "0 \<le> i \<Longrightarrow> i < int (length xs) \<Longrightarrow> index xs i = Inr (xs ! nat i)"
  by (simp add: index_def)

lemma and_then_Inr: "and_then r f = Inr v \<Longrightarrow> \<exists>x. r = Inr x \<and> f x = Inr v"
  by (cases r) (simp_all add: and_then_def)

lemma help_prompt_level:
  assumes "help_prompt current_step user_msg count = Inr prompt"
  shows "sublist (''Provide '' @ help_level count @ ''.'') prompt"
proof -
  from assms obtain title description where
    p: "prompt = (''\<newline>The user is stuck on: '' @ title
            @ ''\<newline>Description: '' @ description
            @ ''\<newline>They said: \"'' @ user_msg
            @ ''\"\<newline>Times they've asked for help: '' @ str_int count @ ''\<newline>\<newline>'')
            @ (''Provide '' @ help_level count @ ''.'')
            @ '' Be understanding and practical. \<newline>\<newline>If they've been stuck multiple times, consider suggesting they might want to break this down into smaller parts or try a different approach.\<newline>''"
    by (auto simp: help_prompt_def dest!: and_then_Inr)
  show ?thesis unfolding p by (rule sublist_appendI)
qed

lemma goal_analysis_frame:
  assumes "goal_analysis_node llm state = (calls, Inr state')"
  shows "goal state' = goal state \<and> current_step_index state' = current_step_index state"
  using assms by (auto simp: goal_analysis_node_def Let_def split: option.splits)

lemma planning_frame:
  assumes "planning_node llm loads state = (calls, Inr state')"
  shows "goal state' = goal state \<and> current_step_index state' = 0"
  using assms
  by (auto simp: planning_node_def planning_fallback_def Let_def split: option.splits json.splits)

lemma execution_frame:
  assumes "execution_node llm state = (calls, Inr state')"
  shows "goal state' = goal state \<and> current_step_index state \<le> current_step_index state'"
  using assms
  by (auto simp: execution_node_def Let_def split: if_splits sum.splits option.splits)

lemma help_frame:
  assumes "help_node llm state = (calls, Inr state')"
  shows "goal state' = goal state \<and> current_step_index state' = current_step_index state"
  using assms
  by (auto simp: help_node_def Let_def split: if_splits sum.splits option.splits)

lemma completion_frame:
  assumes "completion_node state = (calls, Inr state')"
  shows "goal state' = goal state \<and> current_step_index state' = current_step_index state"
  using assms
  by (auto simp: completion_node_def split: sum.splits)

lemma node_cases:
  assumes "node name = Some h"
  shows "(name = ''goal_analysis'' \<and> h = (\<lambda>llm loads. goal_analysis_node llm))
       \<or> (name = ''planning'' \<and> h = planning_node)
       \<or> (name = ''execution'' \<and> h = (\<lambda>llm loads. execution_node llm))
       \<or> (name = ''help'' \<and> h = (\<lambda>llm loads. help_node llm))
       \<or> (name = ''completion'' \<and> h = (\<lambda>llm loads. completion_node))"
  using assms by (auto simp: node_def split: if_splits)


lemma node_index:
  assumes "node name = Some h" and "name \<noteq> ''planning''"
    and "h llm loads state = (calls, Inr state')"
  shows "current_step_index state \<le> current_step_index state'"
  using node_cases [OF assms(1)] assms(2,3)
    goal_analysis_frame execution_frame help_frame completion_frame
  by (metis order_refl)

lemma execution_last_step: "execution_node llm last_step_state = ([], Inr last_step_done)"
  using done_kw
  by (simp add: execution_node_def last_step_state_def last_step_done_def session_state_def
      fallback_steps_def index_def congrats_msg_def lower_done Let_def)

lemma execution_call:
  assumes "fst (execution_node llm state) = [messages]"
  shows "\<exists>current_step prompt.
           index (steps state) (current_step_index state) = Inr current_step
         \<and> step_context current_step (user_message state) = Inr prompt
         \<and> messages = create_conversation_context state @ [HumanMessage prompt]
         \<and> execution_node llm state =
             (case llm messages of
                Some reply \<Rightarrow>
                  ([messages],
                   Inr (state\<lparr>assistant_response := strip reply,
                              conversation_history := conversation_history state
                                @ [\<lparr>role = ''user'', content = user_message state\<rparr>,
                                   \<lparr>role = ''assistant'', content = strip reply\<rparr>]\<rparr>))
              | None \<Rightarrow>
                  (case discussion_fallback current_step of
                     Inl e \<Rightarrow> ([messages], Inl e)
                   | Inr text \<Rightarrow> ([messages], Inr (state\<lparr>assistant_response := text\<rparr>))))"
  using assms
  by (auto simp: execution_node_def Let_def split: if_splits sum.splits option.splits)

lemma execution_discussion:
  "\<exists>prompt. \<forall>llm. execution_node llm discussion_state =
     (case llm (create_conversation_context discussion_state @ [HumanMessage prompt]) of
        Some reply \<Rightarrow>
          ([create_conversation_context discussion_state @ [HumanMessage prompt]],
           Inr (discussion_state\<lparr>assistant_response := strip reply,
                  conversation_history := conversation_history discussion_state
                    @ [\<lparr>role = ''user'', content = ''what should I read first''\<rparr>,
                       \<lparr>role = ''assistant'', content = strip reply\<rparr>]\<rparr>))
      | None \<Rightarrow>
          ([create_conversation_context discussion_state @ [HumanMessage prompt]],
           Inr (discussion_state\<lparr>assistant_response :=
                  ''I understand you're working on Week 3: Implementation. Take action, measure results, adjust as needed What specific part would you like to focus on?''\<rparr>)))"
proof -
  have u: "user_message discussion_state = ''what should I read first''"
    by (simp add: discussion_state_def)
  have i: "index (steps discussion_state) (current_step_index discussion_state)
             = Inr (fallback_steps ''learn python'' ! 2)"
    and n: "\<not> int (length (steps discussion_state)) \<le> current_step_index discussion_state"
    by (simp_all add: index_def discussion_state_def session_state_def length_fallback_steps)
  obtain prompt where
    p: "step_context (fallback_steps ''learn python'' ! 2) ''what should I read first'' = Inr prompt"
    by (simp add: step_context_def and_then_def getitem_def fallback_steps_def)
  have f: "discussion_fallback (fallback_steps ''learn python'' ! 2) =
      Inr ''I understand you're working on Week 3: Implementation. Take action, measure results, adjust as needed What specific part would you like to focus on?''"
    by (simp add: discussion_fallback_def and_then_def getitem_def fallback_steps_def)
  have "execution_node llm discussion_state =
     (case llm (create_conversation_context discussion_state @ [HumanMessage prompt]) of
        Some reply \<Rightarrow>
          ([create_conversation_context discussion_state @ [HumanMessage prompt]],
           Inr (discussion_state\<lparr>assistant_response := strip reply,
                  conversation_history := conversation_history discussion_state
                    @ [\<lparr>role = ''user'', content = ''what should I read first''\<rparr>,
                       \<lparr>role = ''assistant'', content = strip reply\<rparr>]\<rparr>))
      | None \<Rightarrow>
          ([create_conversation_context discussion_state @ [HumanMessage prompt]],
           Inr (discussion_state\<lparr>assistant_response :=
                  ''I understand you're working on Week 3: Implementation. Take action, measure results, adjust as needed What specific part would you like to focus on?''\<rparr>)))"
    for llm
    using i n p f discussion_no_keyword
    by (simp add: execution_node_def Let_def u lower_discussion split: option.splits)
  then show ?thesis by blast
qed

lemma new_goal_routes_to_goal_analysis:
  assumes "sublist ''new goal'' (lower (user_message state))
         \<or> sublist ''start over'' (lower (user_message state))
         \<or> sublist ''different goal'' (lower (user_message state))"
  shows "route_conversation state = ''goal_analysis''"
  using assms by (auto simp: route_conversation_def any_in_def Let_def)

section \<open>The plan parser\<close>

text \<open>
  C1. The claim: the plan parser always produces exactly four steps; a parse error, a
  missing \<open>steps\<close> key or fewer steps than expected all lead to the fixed fallback plan.
  The planning handler reads \<open>plan_data.get("steps", [])\<close> and checks no count: when the
  model replies \<open>{}\<close>, the plan it installs is empty. The numbered-list reader of
  \<open>main.py\<close> returns the empty list when the model call fails.
\<close>

theorem planning_empty_plan_counterexample:
  "plan_length (planning_node (llm_replies ''{}'') loads_empty_object planning_state) = Some 0
   \<and> generate_plan llm_down ''learn python'' = []"
  by (simp add: plan_length_def returned_def planning_node_def llm_replies_def llm_down_def
      loads_empty_object_def unfenced_braces generate_plan_def Let_def)

text \<open>
  C1, as the code has it: the planning handler never raises and makes one model call.
  It installs the fallback plan (four steps, built from the goal text alone) when the model
  call fails, when the reply does not decode, and when it decodes to something that is not
  an object. When the reply decodes to an object, the plan is what the object holds under
  \<open>steps\<close>, of any length, and the empty list when the key is missing.
\<close>

theorem planning_node_plan:
  "\<exists>state'.
       planning_node llm loads state =
         ([create_conversation_context state @ [HumanMessage (planning_prompt (goal state))]],
          Inr state')
     \<and> mode state' = Execution \<and> current_step_index state' = 0
     \<and> steps state' =
         (case llm (create_conversation_context state @ [HumanMessage (planning_prompt (goal state))]) of
            None \<Rightarrow> fallback_steps (goal state)
          | Some reply \<Rightarrow>
              (case loads (unfenced reply) of
                 None \<Rightarrow> fallback_steps (goal state)
               | Some NotObject \<Rightarrow> fallback_steps (goal state)
               | Some (Object None encouragement) \<Rightarrow> []
               | Some (Object (Some plan) encouragement) \<Rightarrow> plan))
     \<and> length (fallback_steps (goal state)) = 4"
proof -
  define messages where
    "messages = create_conversation_context state @ [HumanMessage (planning_prompt (goal state))]"
  have "\<exists>state'. planning_node llm loads state = ([messages], Inr state')
     \<and> mode state' = Execution \<and> current_step_index state' = 0
     \<and> steps state' =
         (case llm messages of
            None \<Rightarrow> fallback_steps (goal state)
          | Some reply \<Rightarrow>
              (case loads (unfenced reply) of
                 None \<Rightarrow> fallback_steps (goal state)
               | Some NotObject \<Rightarrow> fallback_steps (goal state)
               | Some (Object None encouragement) \<Rightarrow> []
               | Some (Object (Some plan) encouragement) \<Rightarrow> plan))"
  proof (cases "llm messages")
    case None
    then show ?thesis
      by (simp add: planning_node_def planning_fallback_def Let_def messages_def)
  next
    case (Some reply)
    show ?thesis
    proof (cases "loads (unfenced reply)")
      case None
      with Some show ?thesis
        by (simp add: planning_node_def planning_fallback_def Let_def messages_def)
    next
      case (Some doc)
      with \<open>llm messages = Some reply\<close> show ?thesis
        by (cases doc)
           (simp_all add: planning_node_def planning_fallback_def Let_def messages_def
              split: option.splits)
    qed
  qed
  then show ?thesis unfolding messages_def using length_fallback_steps by blast
qed

section \<open>The new-goal route\<close>

text \<open>
  C2. The claim: an input with "new goal", "start over" or "different goal" is routed to
  the goal-analysis handler from every mode (lemma \<open>new_goal_routes_to_goal_analysis\<close>
  above proves this part), and that transition clears the whole state. Evaluated on a
  session in the middle of its plan: the router answers \<open>goal_analysis\<close>, and the
  goal-analysis handler, whether the model fails or replies, returns the old goal, the old
  plan, the old step index, the old help count and the old completions, with the history
  longer, not empty. The state that the "New Goal" button installs has all of them
  cleared.
\<close>

theorem new_goal_text_keeps_session:
  "route_conversation new_goal_state = ''goal_analysis''
   \<and> returned (goal_analysis_node llm_down new_goal_state) =
       Some (new_goal_state\<lparr>assistant_response :=
               ''I'm having trouble connecting right now. Let's work with your goal: learn python'',
             mode := Planning, goal_refined := True\<rparr>)
   \<and> map_option goal (returned (goal_analysis_node (llm_replies ''Sounds good.'') new_goal_state))
       = Some ''learn python''
   \<and> map_option steps (returned (goal_analysis_node (llm_replies ''Sounds good.'') new_goal_state))
       = Some (fallback_steps ''learn python'')
   \<and> map_option current_step_index
        (returned (goal_analysis_node (llm_replies ''Sounds good.'') new_goal_state)) = Some 2
   \<and> map_option stuck_count
        (returned (goal_analysis_node (llm_replies ''Sounds good.'') new_goal_state)) = Some 1
   \<and> map_option (\<lambda>state. length (conversation_history state))
        (returned (goal_analysis_node (llm_replies ''Sounds good.'') new_goal_state)) = Some 4
   \<and> steps new_goal_state = fallback_steps ''learn python''
   \<and> current_step_index new_goal_state = 2
   \<and> stuck_count new_goal_state = 1
   \<and> completion_status new_goal_state 0 \<noteq> None
   \<and> steps new_goal_button_state = []
   \<and> current_step_index new_goal_button_state = 0
   \<and> stuck_count new_goal_button_state = 0
   \<and> completion_status new_goal_button_state 0 = None
   \<and> conversation_history new_goal_button_state = []"
proof -
  have r: "route_conversation new_goal_state = ''goal_analysis''"
    by (rule new_goal_routes_to_goal_analysis)
       (simp add: new_goal_state_def with_user_input_def lower_new_goal sublist_code prefix_code)
  have f: "steps new_goal_state = fallback_steps ''learn python''"
    "current_step_index new_goal_state = 2"
    "stuck_count new_goal_state = 1"
    "completion_status new_goal_state 0 \<noteq> None"
    "goal new_goal_state = ''learn python''"
    "length (conversation_history new_goal_state) = 2"
    "user_message new_goal_state \<noteq> []"
    by (simp_all add: new_goal_state_def with_user_input_def session_state_def)
  have d: "returned (goal_analysis_node llm_down new_goal_state) =
       Some (new_goal_state\<lparr>assistant_response :=
               ''I'm having trouble connecting right now. Let's work with your goal: learn python'',
             mode := Planning, goal_refined := True\<rparr>)"
    by (simp add: returned_def goal_analysis_node_def llm_down_def Let_def f)
  have u: "returned (goal_analysis_node (llm_replies ''Sounds good.'') new_goal_state) =
       Some (new_goal_state\<lparr>assistant_response := strip ''Sounds good.'',
             conversation_history := conversation_history new_goal_state
               @ [\<lparr>role = ''user'', content = user_message new_goal_state\<rparr>,
                  \<lparr>role = ''assistant'', content = strip ''Sounds good.''\<rparr>],
             mode := (if sublist ''?'' (strip ''Sounds good.'') \<and> \<not> goal_refined new_goal_state
                      then GoalSetting else Planning),
             goal_refined := \<not> (sublist ''?'' (strip ''Sounds good.'') \<and> \<not> goal_refined new_goal_state)\<rparr>)"
    using f(7) by (simp add: returned_def goal_analysis_node_def llm_replies_def Let_def)
  have b: "steps new_goal_button_state = []"
    "current_step_index new_goal_button_state = 0"
    "stuck_count new_goal_button_state = 0"
    "completion_status new_goal_button_state 0 = None"
    "conversation_history new_goal_button_state = []"
    by (simp_all add: new_goal_button_state_def)
  show ?thesis using r d b f by (simp add: u)
qed

section \<open>Planning with a model that is down\<close>

text \<open>
  C3. For a state in planning mode and a model whose every call fails, the planning
  handler returns a state whose plan is the fallback plan of four steps, in execution mode,
  at step index 0, after at most one model call.
\<close>

theorem planning_survives_failing_model:
  assumes "mode state = Planning" and "\<forall>messages. llm messages = None"
  shows "\<exists>calls state'. planning_node llm loads state = (calls, Inr state')
           \<and> length calls \<le> 1
           \<and> steps state' = fallback_steps (goal state) \<and> length (steps state') = 4
           \<and> mode state' = Execution \<and> current_step_index state' = 0"
  using assms by (simp add: planning_node_def planning_fallback_def length_fallback_steps Let_def)

text \<open>
  The example: \<open>planning_state\<close> and the model that is down.
\<close>

theorem planning_survives_failing_model_witness:
  "mode planning_state = Planning \<and> (\<forall>messages. llm_down messages = None)
   \<and> (\<exists>calls state'. planning_node llm_down loads_empty_object planning_state = (calls, Inr state')
           \<and> length calls \<le> 1
           \<and> steps state' = fallback_steps (goal planning_state) \<and> length (steps state') = 4
           \<and> mode state' = Execution \<and> current_step_index state' = 0)"
proof -
  have a: "mode planning_state = Planning" by (simp add: planning_state_def)
  have b: "\<forall>messages. llm_down messages = None" by (simp add: llm_down_def)
  show ?thesis using a b planning_survives_failing_model [OF a b] by blast
qed

section \<open>Completing the last step\<close>

text \<open>
  C4. For a state in execution mode with a plan of four steps, at step index 3, and the
  input "done, finally!": the router selects the execution handler, the input holds a
  completion keyword, and the handler returns, without a model call, a state at step
  index 4, in completed mode, with a completion record for index 3.
\<close>

theorem done_on_last_step:
  assumes "mode state = Execution" and "length (steps state) = 4"
    and "current_step_index state = 3" and "user_message state = ''done, finally!''"
  shows "route_conversation state = ''execution''
       \<and> any_in [''done'', ''complete'', ''finished'', ''next''] (lower (user_message state))
       \<and> (\<exists>state'. execution_node llm state = ([], Inr state')
             \<and> current_step_index state' = 4 \<and> mode state' = Completed
             \<and> completion_status state' 3 \<noteq> None)"
proof -
  have r: "route_conversation state = ''execution''"
    using assms done_not_new by (simp add: route_conversation_def lower_done)
  have k: "any_in [''done'', ''complete'', ''finished'', ''next''] (lower (user_message state))"
    using assms done_kw by (simp add: lower_done)
  have i: "index (steps state) 3 = Inr (steps state ! 3)"
    using assms by (simp add: index_def)
  have e: "execution_node llm state = ([], Inr (state\<lparr>current_step_index := 4,
             completion_status := (completion_status state)(3 \<mapsto> \<lparr>completed_at = ''now'', feedback_text = ''done, finally!''\<rparr>),
             assistant_response := [CHR 0xF0, CHR 0x9F, CHR 0x8E, CHR 0x89]
             @ '' Congratulations! You've completed all 4 weeks of your goal plan for ''
             @ [CHR 0x27] @ goal state @ [CHR 0x27] @ ''! That's amazing dedication.'',
             conversation_history := conversation_history state @ [\<lparr>role = ''user'', content = ''done, finally!''\<rparr>,
                \<lparr>role = ''assistant'', content = [CHR 0xF0, CHR 0x9F, CHR 0x8E, CHR 0x89]
             @ '' Congratulations! You've completed all 4 weeks of your goal plan for ''
             @ [CHR 0x27] @ goal state @ [CHR 0x27] @ ''! That's amazing dedication.''\<rparr>],
             mode := Completed\<rparr>))"
    using assms k i by (simp add: execution_node_def congrats_msg_def lower_done Let_def)
  show ?thesis using r k e by simp
qed

text \<open>
  The example: \<open>last_step_state\<close>.
\<close>

theorem done_on_last_step_witness:
  "mode last_step_state = Execution \<and> length (steps last_step_state) = 4
   \<and> current_step_index last_step_state = 3 \<and> user_message last_step_state = ''done, finally!''
   \<and> route_conversation last_step_state = ''execution''
   \<and> any_in [''done'', ''complete'', ''finished'', ''next''] (lower (user_message last_step_state))
   \<and> (\<exists>state'. execution_node llm_down last_step_state = ([], Inr state')
         \<and> current_step_index state' = 4 \<and> mode state' = Completed
         \<and> completion_status state' 3 \<noteq> None)"
proof -
  have a: "mode last_step_state = Execution"
    and b: "length (steps last_step_state) = 4"
    and c: "current_step_index last_step_state = 3"
    and d: "user_message last_step_state = ''done, finally!''"
    by (simp_all add: last_step_state_def session_state_def fallback_steps_def)
  show ?thesis using a b c d done_on_last_step [OF a b c d, of llm_down] by simp
qed

section \<open>The index past the plan\<close>

text \<open>
  C5. When the execution handler is entered with the step index at or past the length of
  the plan, it returns the state with its mode set to completed and nothing else changed;
  it makes no model call and does not raise.
\<close>

theorem execution_overrun_completes:
  "int (length (steps state)) \<le> current_step_index state \<Longrightarrow>
     execution_node llm state = ([], Inr (state\<lparr>mode := Completed\<rparr>))"
  by (simp add: execution_node_def)

text \<open>
  The example: \<open>overrun_state\<close>, at index 4 of a plan of four steps.
\<close>

theorem execution_overrun_completes_witness:
  "int (length (steps overrun_state)) \<le> current_step_index overrun_state
   \<and> execution_node llm_down overrun_state = ([], Inr (overrun_state\<lparr>mode := Completed\<rparr>))"
proof -
  have h: "int (length (steps overrun_state)) \<le> current_step_index overrun_state"
    by (simp add: overrun_state_def session_state_def fallback_steps_def)
  show ?thesis using h execution_overrun_completes [OF h, of llm_down] by simp
qed

section \<open>The step index within a goal\<close>

text \<open>
  C6. Along every sequence of user inputs and of runs of handlers other than the planning
  handler, the step index never decreases; the planning handler sets it to 0, and so does
  the state of the "New Goal" button.
\<close>

theorem index_never_decreases:
  "(within_goal s t \<longrightarrow> current_step_index s \<le> current_step_index t)
   \<and> (planning_node llm loads p = (calls, Inr p') \<longrightarrow> current_step_index p' = 0)
   \<and> current_step_index new_goal_button_state = 0"
proof -
  have "current_step_index s \<le> current_step_index t" if "within_goal s t"
    using that
  proof (induction rule: within_goal.induct)
    case (start s)
    show ?case by simp
  next
    case (input s t user_input)
    then show ?case by (simp add: with_user_input_def)
  next
    case (handler s t name h llm loads calls t')
    from node_index [OF handler.hyps(3) handler.hyps(2) handler.hyps(4)] handler.IH
    show ?case by simp
  qed
  moreover have "current_step_index p' = 0" if "planning_node llm loads p = (calls, Inr p')"
    using planning_frame [OF that] by simp
  moreover have "current_step_index new_goal_button_state = 0"
    by (simp add: new_goal_button_state_def)
  ultimately show ?thesis by blast
qed

text \<open>
  The example: the execution handler takes \<open>last_step_state\<close> to
  \<open>last_step_done\<close>, from index 3 to index 4; the planning handler takes
  \<open>planning_state\<close> to index 0.
\<close>

theorem index_never_decreases_witness:
  "within_goal last_step_state last_step_done
   \<and> current_step_index last_step_state \<le> current_step_index last_step_done
   \<and> planning_node llm_down loads_empty_object planning_state
       = ([create_conversation_context planning_state
            @ [HumanMessage (planning_prompt (goal planning_state))]],
          Inr (planning_fallback planning_state))
   \<and> current_step_index (planning_fallback planning_state) = 0"
proof -
  have n: "node ''execution'' = Some (\<lambda>llm loads. execution_node llm)"
    by (simp add: node_def)
  have w: "within_goal last_step_state last_step_done"
    by (rule within_goal.handler
          [where llm = llm_down and loads = loads_empty_object and calls = "[]",
           OF within_goal.start _ n])
       (simp_all add: execution_last_step)
  have p: "planning_node llm_down loads_empty_object planning_state
       = ([create_conversation_context planning_state
            @ [HumanMessage (planning_prompt (goal planning_state))]],
          Inr (planning_fallback planning_state))"
    by (simp add: planning_node_def llm_down_def Let_def)
  show ?thesis
    using w p index_never_decreases
        [where s = last_step_state and t = last_step_done and llm = llm_down
           and loads = loads_empty_object and p = planning_state
           and calls = "[create_conversation_context planning_state
                          @ [HumanMessage (planning_prompt (goal planning_state))]]"
           and p' = "planning_fallback planning_state"]
    by simp
qed

section \<open>The context handed to the model\<close>


section \<open>Help\<close>

text \<open>
  C8. The claim: for every state that enters the help handler with its current step in
  range, the handler returns a state in execution mode, whether the model call succeeds
  or fails. The steps of a plan are the dictionaries of the model's reply, unchecked, and
  the handler reads \<open>title\<close> and \<open>description\<close> before its \<open>try\<close> and \<open>tips\<close>
  inside its \<open>except\<close> branch: with a current step that has no tips and a model that is
  down, it raises \<open>KeyError\<close> and returns no state.
\<close>

theorem help_raises_without_tips_counterexample:
  "0 \<le> current_step_index untipped_state
   \<and> current_step_index untipped_state < int (length (steps untipped_state))
   \<and> snd (help_node llm_down untipped_state) = Inl (KeyError ''tips'')
   \<and> returned (help_node llm_down untipped_state) = None"
  by (simp add: untipped_state_def help_state_def session_state_def help_node_def index_def
      help_prompt_def fallback_help_def and_then_def getitem_def llm_down_def returned_def Let_def)

text \<open>
  C8, as the code has it: for a state whose step index is within the plan and whose
  current step has a title, a description and tips, the help handler makes one model call
  and returns a state in execution mode, whether the call succeeds or fails. The prompt asks
  for the level of help of the help count (1: gentle encouragement, 2: specific advice,
  3 and more: a detailed breakdown). When the call fails the response is the fixed text
  built from the title and the tips of the current step, and nothing else but the mode
  changes; when it succeeds the user's turn and the response are appended to the
  history.
\<close>

theorem help_returns_to_execution:
  assumes "0 \<le> current_step_index state"
    and "current_step_index state < int (length (steps state))"
    and "steps state ! nat (current_step_index state) = current_step"
    and "current_step ''title'' = Some title"
    and "current_step ''description'' = Some description"
    and "current_step ''tips'' = Some tips"
  shows "\<exists>prompt state'.
           help_node llm state = ([create_conversation_context state @ [HumanMessage prompt]], Inr state')
         \<and> mode state' = Execution
         \<and> help_prompt current_step (user_message state) (stuck_count state) = Inr prompt
         \<and> sublist (''Provide '' @ help_level (stuck_count state) @ ''.'') prompt
         \<and> state' =
             (case llm (create_conversation_context state @ [HumanMessage prompt]) of
                None \<Rightarrow>
                  state\<lparr>assistant_response :=
                          ''I can see you're having trouble with '' @ title
                          @ ''. That's totally normal!\<newline>        \<newline>Here are some ways to approach it:\<newline>1. Break it into smaller 15-minute tasks\<newline>2. Focus on just one small part today\<newline>3. Ask yourself: what's the smallest step I could take right now?\<newline>\<newline>''
                          @ tips @ ''\<newline>\<newline>What feels most manageable to you?'',
                        mode := Execution\<rparr>
              | Some reply \<Rightarrow>
                  state\<lparr>assistant_response := assistant_response state',
                        conversation_history := conversation_history state
                          @ [\<lparr>role = ''user'', content = user_message state\<rparr>,
                             \<lparr>role = ''assistant'', content = assistant_response state'\<rparr>],
                        mode := Execution\<rparr>)
         \<and> help_level 1 = ''gentle encouragement and tips''
         \<and> help_level 2 = ''more specific, actionable advice''
         \<and> help_level (3 + int k) = ''very detailed, step-by-step breakdown''"
proof -
  obtain prompt where
    p: "help_prompt current_step (user_message state) (stuck_count state) = Inr prompt"
    using assms(4,5) by (simp add: help_prompt_def and_then_def getitem_def)
  have i: "index (steps state) (current_step_index state) = Inr current_step"
    using assms(1,2,3) by (simp add: index_in_range)
  have f: "fallback_help current_step =
      Inr (''I can see you're having trouble with '' @ title
           @ ''. That's totally normal!\<newline>        \<newline>Here are some ways to approach it:\<newline>1. Break it into smaller 15-minute tasks\<newline>2. Focus on just one small part today\<newline>3. Ask yourself: what's the smallest step I could take right now?\<newline>\<newline>''
           @ tips @ ''\<newline>\<newline>What feels most manageable to you?'')"
    using assms(4,6) by (simp add: fallback_help_def and_then_def getitem_def)
  have l: "help_level 1 = ''gentle encouragement and tips''
         \<and> help_level 2 = ''more specific, actionable advice''
         \<and> help_level (3 + int k) = ''very detailed, step-by-step breakdown''"
    by (simp add: help_level_def)
  show ?thesis
  proof (cases "llm (create_conversation_context state @ [HumanMessage prompt])")
    case None
    then have "help_node llm state =
        ([create_conversation_context state @ [HumanMessage prompt]],
         Inr (state\<lparr>assistant_response :=
                          ''I can see you're having trouble with '' @ title
                          @ ''. That's totally normal!\<newline>        \<newline>Here are some ways to approach it:\<newline>1. Break it into smaller 15-minute tasks\<newline>2. Focus on just one small part today\<newline>3. Ask yourself: what's the smallest step I could take right now?\<newline>\<newline>''
                          @ tips @ ''\<newline>\<newline>What feels most manageable to you?'',
                        mode := Execution\<rparr>))"
      using i p f by (simp add: help_node_def Let_def)
    with None p l help_prompt_level [OF p] show ?thesis by simp
  next
    case (Some reply)
    then have "help_node llm state =
        ([create_conversation_context state @ [HumanMessage prompt]],
         Inr (state\<lparr>assistant_response := strip reply,
                        conversation_history := conversation_history state
                          @ [\<lparr>role = ''user'', content = user_message state\<rparr>,
                             \<lparr>role = ''assistant'', content = strip reply\<rparr>],
                        mode := Execution\<rparr>))"
      using i p by (simp add: help_node_def Let_def)
    with Some p l help_prompt_level [OF p] show ?thesis by simp
  qed
qed

text \<open>
  The example: \<open>help_state\<close>, with a help count of 1, and the model that is down.
\<close>

theorem help_returns_to_execution_witness:
  "0 \<le> current_step_index help_state
   \<and> current_step_index help_state < int (length (steps help_state))
   \<and> (steps help_state ! nat (current_step_index help_state)) ''title'' = Some ''Week 3: Implementation''
   \<and> (steps help_state ! nat (current_step_index help_state)) ''description''
        = Some ''Apply what you've learned toward learn python''
   \<and> (steps help_state ! nat (current_step_index help_state)) ''tips''
        = Some ''Take action, measure results, adjust as needed''
   \<and> (\<exists>prompt. help_node llm_down help_state =
         ([create_conversation_context help_state @ [HumanMessage prompt]],
          Inr (help_state\<lparr>assistant_response :=
                  ''I can see you're having trouble with Week 3: Implementation. That's totally normal!\<newline>        \<newline>Here are some ways to approach it:\<newline>1. Break it into smaller 15-minute tasks\<newline>2. Focus on just one small part today\<newline>3. Ask yourself: what's the smallest step I could take right now?\<newline>\<newline>Take action, measure results, adjust as needed\<newline>\<newline>What feels most manageable to you?'',
                mode := Execution\<rparr>))
       \<and> sublist ''Provide gentle encouragement and tips.'' prompt)"
proof -
  have a: "0 \<le> current_step_index help_state"
    and b: "current_step_index help_state < int (length (steps help_state))"
    by (simp_all add: help_state_def session_state_def fallback_steps_def)
  have n: "nat (current_step_index help_state) = 2"
    by (simp add: help_state_def session_state_def)
  have t: "(steps help_state ! nat (current_step_index help_state)) ''title'' = Some ''Week 3: Implementation''"
    and d: "(steps help_state ! nat (current_step_index help_state)) ''description''
        = Some ''Apply what you've learned toward learn python''"
    and p: "(steps help_state ! nat (current_step_index help_state)) ''tips''
        = Some ''Take action, measure results, adjust as needed''"
    unfolding n by (simp_all add: help_state_def session_state_def fallback_steps_def)
  have s: "stuck_count help_state = 1"
    by (simp add: help_state_def session_state_def)
  have l: "help_level 1 = ''gentle encouragement and tips''"
    by (simp add: help_level_def)
  from help_returns_to_execution [OF a b refl t d p, of llm_down 0]
  obtain prompt state' where
    h: "help_node llm_down help_state = ([create_conversation_context help_state @ [HumanMessage prompt]], Inr state')"
    and k: "sublist (''Provide '' @ help_level (stuck_count help_state) @ ''.'') prompt"
    and e: "state' =
             (case llm_down (create_conversation_context help_state @ [HumanMessage prompt]) of
                None \<Rightarrow>
                  help_state\<lparr>assistant_response :=
                          ''I can see you're having trouble with '' @ ''Week 3: Implementation''
                          @ ''. That's totally normal!\<newline>        \<newline>Here are some ways to approach it:\<newline>1. Break it into smaller 15-minute tasks\<newline>2. Focus on just one small part today\<newline>3. Ask yourself: what's the smallest step I could take right now?\<newline>\<newline>''
                          @ ''Take action, measure results, adjust as needed'' @ ''\<newline>\<newline>What feels most manageable to you?'',
                        mode := Execution\<rparr>
              | Some reply \<Rightarrow>
                  help_state\<lparr>assistant_response := assistant_response state',
                        conversation_history := conversation_history help_state
                          @ [\<lparr>role = ''user'', content = user_message help_state\<rparr>,
                             \<lparr>role = ''assistant'', content = assistant_response state'\<rparr>],
                        mode := Execution\<rparr>)"
    by blast
  have e': "state' = help_state\<lparr>assistant_response :=
                  ''I can see you're having trouble with Week 3: Implementation. That's totally normal!\<newline>        \<newline>Here are some ways to approach it:\<newline>1. Break it into smaller 15-minute tasks\<newline>2. Focus on just one small part today\<newline>3. Ask yourself: what's the smallest step I could take right now?\<newline>\<newline>Take action, measure results, adjust as needed\<newline>\<newline>What feels most manageable to you?'',
                mode := Execution\<rparr>"
    using e by (simp add: llm_down_def)
  have k': "sublist ''Provide gentle encouragement and tips.'' prompt"
    using k by (simp add: s l)
  show ?thesis using a b t d p h e' k' by blast
qed

section \<open>The goal of a refined state\<close>




section \<open>Model failure in the free-form branches\<close>

text \<open>
  C10. When its model call fails, the goal-analysis handler returns the state it was
  given with only the response, the mode and \<open>goal_refined\<close> changed. When the execution
  handler makes a model call (it does so in its free-discussion branch only) and the call
  fails, it returns the state it was given with only the response changed, to the fixed
  text built from the title and the tips of the current step. In both, the history is
  the one the handler was given. When the call succeeds, the goal-analysis handler appends
  the user's turn (if the user message is not empty) and the assistant's turn, and the
  execution handler appends both.
\<close>

theorem failure_leaves_history:
  "(llm (create_conversation_context state
          @ [HumanMessage (analysis_prompt (goal state) (user_message state))]) = None \<longrightarrow>
      goal_analysis_node llm state =
        ([create_conversation_context state
            @ [HumanMessage (analysis_prompt (goal state) (user_message state))]],
         Inr (state\<lparr>assistant_response :=
                      ''I'm having trouble connecting right now. Let's work with your goal: ''
                      @ goal state,
                    mode := Planning, goal_refined := True\<rparr>)))
   \<and> (fst (execution_node llm state) = [messages] \<and> llm messages = None \<longrightarrow>
        (\<exists>current_step title tips.
            index (steps state) (current_step_index state) = Inr current_step
          \<and> current_step ''title'' = Some title \<and> current_step ''tips'' = Some tips
          \<and> snd (execution_node llm state) =
              Inr (state\<lparr>assistant_response :=
                           ''I understand you're working on '' @ title @ ''. '' @ tips
                           @ '' What specific part would you like to focus on?''\<rparr>)))
   \<and> (llm' (create_conversation_context state
          @ [HumanMessage (analysis_prompt (goal state) (user_message state))]) = Some reply \<longrightarrow>
        (\<exists>state'. snd (goal_analysis_node llm' state) = Inr state'
          \<and> conversation_history state' = conversation_history state
               @ (if user_message state \<noteq> []
                  then [\<lparr>role = ''user'', content = user_message state\<rparr>] else [])
               @ [\<lparr>role = ''assistant'', content = assistant_response state'\<rparr>]))
   \<and> (fst (execution_node llm' state) = [messages'] \<and> llm' messages' = Some reply \<longrightarrow>
        (\<exists>state'. snd (execution_node llm' state) = Inr state'
          \<and> conversation_history state' = conversation_history state
               @ [\<lparr>role = ''user'', content = user_message state\<rparr>,
                  \<lparr>role = ''assistant'', content = assistant_response state'\<rparr>]))"
proof -
  have a: "goal_analysis_node llm state =
        ([create_conversation_context state
            @ [HumanMessage (analysis_prompt (goal state) (user_message state))]],
         Inr (state\<lparr>assistant_response :=
                      ''I'm having trouble connecting right now. Let's work with your goal: ''
                      @ goal state,
                    mode := Planning, goal_refined := True\<rparr>))"
    if "llm (create_conversation_context state
          @ [HumanMessage (analysis_prompt (goal state) (user_message state))]) = None"
    using that by (simp add: goal_analysis_node_def Let_def)
  have b: "\<exists>current_step title tips.
            index (steps state) (current_step_index state) = Inr current_step
          \<and> current_step ''title'' = Some title \<and> current_step ''tips'' = Some tips
          \<and> snd (execution_node llm state) =
              Inr (state\<lparr>assistant_response :=
                           ''I understand you're working on '' @ title @ ''. '' @ tips
                           @ '' What specific part would you like to focus on?''\<rparr>)"
    if "fst (execution_node llm state) = [messages]" and "llm messages = None"
  proof -
    from execution_call [OF that(1)] obtain current_step prompt where
      i: "index (steps state) (current_step_index state) = Inr current_step"
      and p: "step_context current_step (user_message state) = Inr prompt"
      and e: "execution_node llm state =
             (case llm messages of
                Some reply \<Rightarrow>
                  ([messages],
                   Inr (state\<lparr>assistant_response := strip reply,
                              conversation_history := conversation_history state
                                @ [\<lparr>role = ''user'', content = user_message state\<rparr>,
                                   \<lparr>role = ''assistant'', content = strip reply\<rparr>]\<rparr>))
              | None \<Rightarrow>
                  (case discussion_fallback current_step of
                     Inl e \<Rightarrow> ([messages], Inl e)
                   | Inr text \<Rightarrow> ([messages], Inr (state\<lparr>assistant_response := text\<rparr>))))"
      by blast
    from p obtain title tips where
      t: "current_step ''title'' = Some title" and q: "current_step ''tips'' = Some tips"
      by (auto simp: step_context_def and_then_def getitem_def split: option.splits sum.splits)
    have f: "discussion_fallback current_step =
        Inr (''I understand you're working on '' @ title @ ''. '' @ tips
             @ '' What specific part would you like to focus on?'')"
      using t q by (simp add: discussion_fallback_def and_then_def getitem_def)
    have "snd (execution_node llm state) =
              Inr (state\<lparr>assistant_response :=
                           ''I understand you're working on '' @ title @ ''. '' @ tips
                           @ '' What specific part would you like to focus on?''\<rparr>)"
      using e f that(2) by simp
    with i t q show ?thesis by blast
  qed
  have c: "\<exists>state'. snd (goal_analysis_node llm' state) = Inr state'
          \<and> conversation_history state' = conversation_history state
               @ (if user_message state \<noteq> []
                  then [\<lparr>role = ''user'', content = user_message state\<rparr>] else [])
               @ [\<lparr>role = ''assistant'', content = assistant_response state'\<rparr>]"
    if "llm' (create_conversation_context state
          @ [HumanMessage (analysis_prompt (goal state) (user_message state))]) = Some reply"
    using that by (simp add: goal_analysis_node_def Let_def)
  have d: "\<exists>state'. snd (execution_node llm' state) = Inr state'
          \<and> conversation_history state' = conversation_history state
               @ [\<lparr>role = ''user'', content = user_message state\<rparr>,
                  \<lparr>role = ''assistant'', content = assistant_response state'\<rparr>]"
    if "fst (execution_node llm' state) = [messages']" and "llm' messages' = Some reply"
  proof -
    from execution_call [OF that(1)] obtain current_step where
      e: "execution_node llm' state =
             (case llm' messages' of
                Some reply \<Rightarrow>
                  ([messages'],
                   Inr (state\<lparr>assistant_response := strip reply,
                              conversation_history := conversation_history state
                                @ [\<lparr>role = ''user'', content = user_message state\<rparr>,
                                   \<lparr>role = ''assistant'', content = strip reply\<rparr>]\<rparr>))
              | None \<Rightarrow>
                  (case discussion_fallback current_step of
                     Inl e \<Rightarrow> ([messages'], Inl e)
                   | Inr text \<Rightarrow> ([messages'], Inr (state\<lparr>assistant_response := text\<rparr>))))"
      by blast
    show ?thesis using e that(2) by simp
  qed
  show ?thesis using a b c d by blast
qed

text \<open>
  The example: \<open>discussion_state\<close>, with the model that is down and with a model that
  replies.
\<close>

theorem failure_leaves_history_witness:
  "llm_down (create_conversation_context discussion_state
       @ [HumanMessage (analysis_prompt (goal discussion_state) (user_message discussion_state))]) = None
   \<and> fst (execution_node llm_down discussion_state)
        = [hd (fst (execution_node llm_down discussion_state))]
   \<and> llm_down (hd (fst (execution_node llm_down discussion_state))) = None
   \<and> llm_replies ''  Start with the tutorial. '' (create_conversation_context discussion_state
       @ [HumanMessage (analysis_prompt (goal discussion_state) (user_message discussion_state))])
        = Some ''  Start with the tutorial. ''
   \<and> fst (execution_node (llm_replies ''  Start with the tutorial. '') discussion_state)
        = [hd (fst (execution_node llm_down discussion_state))]
   \<and> llm_replies ''  Start with the tutorial. '' (hd (fst (execution_node llm_down discussion_state)))
        = Some ''  Start with the tutorial. ''
   \<and> returned (goal_analysis_node llm_down discussion_state) =
        Some (discussion_state\<lparr>assistant_response :=
                ''I'm having trouble connecting right now. Let's work with your goal: learn python'',
              mode := Planning, goal_refined := True\<rparr>)
   \<and> returned (execution_node llm_down discussion_state) =
        Some (discussion_state\<lparr>assistant_response :=
                ''I understand you're working on Week 3: Implementation. Take action, measure results, adjust as needed What specific part would you like to focus on?''\<rparr>)
   \<and> map_option conversation_history
        (returned (goal_analysis_node (llm_replies ''  Start with the tutorial. '') discussion_state))
        = Some (conversation_history discussion_state
                @ [\<lparr>role = ''user'', content = ''what should I read first''\<rparr>,
                   \<lparr>role = ''assistant'', content = ''Start with the tutorial.''\<rparr>])
   \<and> map_option conversation_history
        (returned (execution_node (llm_replies ''  Start with the tutorial. '') discussion_state))
        = Some (conversation_history discussion_state
                @ [\<lparr>role = ''user'', content = ''what should I read first''\<rparr>,
                   \<lparr>role = ''assistant'', content = ''Start with the tutorial.''\<rparr>])"
proof -
  obtain prompt where
    x: "\<And>llm. execution_node llm discussion_state =
     (case llm (create_conversation_context discussion_state @ [HumanMessage prompt]) of
        Some reply \<Rightarrow>
          ([create_conversation_context discussion_state @ [HumanMessage prompt]],
           Inr (discussion_state\<lparr>assistant_response := strip reply,
                  conversation_history := conversation_history discussion_state
                    @ [\<lparr>role = ''user'', content = ''what should I read first''\<rparr>,
                       \<lparr>role = ''assistant'', content = strip reply\<rparr>]\<rparr>))
      | None \<Rightarrow>
          ([create_conversation_context discussion_state @ [HumanMessage prompt]],
           Inr (discussion_state\<lparr>assistant_response :=
                  ''I understand you're working on Week 3: Implementation. Take action, measure results, adjust as needed What specific part would you like to focus on?''\<rparr>)))"
    using execution_discussion by blast
  define m where "m = create_conversation_context discussion_state @ [HumanMessage prompt]"
  define g where "g = create_conversation_context discussion_state
       @ [HumanMessage (analysis_prompt (goal discussion_state) (user_message discussion_state))]"
  define r where "r = ''  Start with the tutorial. ''"
  have s: "strip r = ''Start with the tutorial.''"
    unfolding r_def by code_simp
  have u: "user_message discussion_state = ''what should I read first''"
    and gl: "goal discussion_state = ''learn python''"
    by (simp_all add: discussion_state_def session_state_def)
  have ed: "execution_node llm_down discussion_state =
      ([m], Inr (discussion_state\<lparr>assistant_response :=
                  ''I understand you're working on Week 3: Implementation. Take action, measure results, adjust as needed What specific part would you like to focus on?''\<rparr>))"
    by (simp add: x [of llm_down] m_def llm_down_def)
  have er: "execution_node (llm_replies r) discussion_state =
      ([m], Inr (discussion_state\<lparr>assistant_response := ''Start with the tutorial.'',
                  conversation_history := conversation_history discussion_state
                    @ [\<lparr>role = ''user'', content = ''what should I read first''\<rparr>,
                       \<lparr>role = ''assistant'', content = ''Start with the tutorial.''\<rparr>]\<rparr>))"
    by (simp add: x [of "llm_replies r"] m_def llm_replies_def s)
  have hm: "hd (fst (execution_node llm_down discussion_state)) = m"
    by (simp add: ed)
  have h1: "llm_down g = None" and h3: "llm_down m = None"
    by (simp_all add: llm_down_def)
  have h2: "fst (execution_node llm_down discussion_state) = [m]"
    by (simp add: ed)
  have h4: "llm_replies r g = Some r" and h6: "llm_replies r m = Some r"
    by (simp_all add: llm_replies_def)
  have h5: "fst (execution_node (llm_replies r) discussion_state) = [m]"
    by (simp add: er)
  note th = failure_leaves_history
    [where llm = llm_down and llm' = "llm_replies r" and state = discussion_state
       and messages = m and messages' = m and reply = r]
  have c1: "returned (goal_analysis_node llm_down discussion_state) =
        Some (discussion_state\<lparr>assistant_response :=
                ''I'm having trouble connecting right now. Let's work with your goal: learn python'',
              mode := Planning, goal_refined := True\<rparr>)"
    using th h1 by (simp add: g_def returned_def gl)
  have c2: "returned (execution_node llm_down discussion_state) =
        Some (discussion_state\<lparr>assistant_response :=
                ''I understand you're working on Week 3: Implementation. Take action, measure results, adjust as needed What specific part would you like to focus on?''\<rparr>)"
    by (simp add: ed returned_def)
  have c3: "map_option conversation_history
        (returned (goal_analysis_node (llm_replies r) discussion_state))
        = Some (conversation_history discussion_state
                @ [\<lparr>role = ''user'', content = ''what should I read first''\<rparr>,
                   \<lparr>role = ''assistant'', content = ''Start with the tutorial.''\<rparr>])"
    by (simp add: goal_analysis_node_def llm_replies_def returned_def Let_def u s)
  have c4: "map_option conversation_history
        (returned (execution_node (llm_replies r) discussion_state))
        = Some (conversation_history discussion_state
                @ [\<lparr>role = ''user'', content = ''what should I read first''\<rparr>,
                   \<lparr>role = ''assistant'', content = ''Start with the tutorial.''\<rparr>])"
    by (simp add: er returned_def)
  show ?thesis
    using h1 h2 h3 h4 h5 h6 c1 c2 c3 c4 unfolding hm g_def [symmetric] r_def [symmetric]
    by blast
qed

end
